theory Spec2Isabelle
  imports Main "HOL-Library.Word" "HOL-Library.AList"
begin

section \<open>Machine integers and time\<close>

text \<open>
  Go's \<^verbatim>\<open>int32\<close> and \<^verbatim>\<open>int64\<close> are words: addition wraps, comparison reads the word as
  two's complement (\<open>sint\<close>). Go's \<^verbatim>\<open>int\<close> is taken at 64 bits, and a
  \<^verbatim>\<open>time.Duration\<close> is an \<^verbatim>\<open>int64\<close> of nanoseconds.
\<close>

type_synonym int32 = "32 word"
type_synonym int64 = "64 word"
type_synonym Duration = "64 word"

text \<open>
  The wall clock is a parameter of every operation that reads it: \<open>now\<close> is the instant of
  \<^verbatim>\<open>time.Now()\<close> in nanoseconds since the Unix epoch. \<^verbatim>\<open>time.Since(time.Unix(0, ns))\<close> is
  the difference of the two instants, saturated to the range of a \<^verbatim>\<open>Duration\<close> as
  \<^verbatim>\<open>Time.Sub\<close> does.
\<close>

definition time_Since :: "int \<Rightarrow> int64 \<Rightarrow> int" where
  "time_Since now ns =
     (let d = now - sint ns
      in if d > 2 ^ 63 - 1 then 2 ^ 63 - 1 else if d < - (2 ^ 63) then - (2 ^ 63) else d)"

definition UnixNano :: "int \<Rightarrow> int64" where
  "UnixNano now = word_of_int now"

section \<open>Circuit breaker (\<^verbatim>\<open>pkg/plugin/circuit_breaker.go\<close>)\<close>

type_synonym CircuitState = int32

definition StateClosed :: CircuitState where "StateClosed = 0"
definition StateOpen :: CircuitState where "StateOpen = 1"
definition StateHalfOpen :: CircuitState where "StateHalfOpen = 2"

record CircuitBreakerConfig =
  Enabled :: bool
  MaxFailures :: int64
  ResetInterval :: Duration
  TimeoutDuration :: Duration

text \<open>
  The breaker's atomics are plain fields: the model runs one call at a time. \<open>cb_done\<close>
  says whether the \<^verbatim>\<open>done\<close> channel has been closed. A \<^verbatim>\<open>*CircuitBreaker\<close> is a
  \<open>CircuitBreaker option\<close>, \<open>None\<close> being the nil pointer every method checks for.
\<close>

record CircuitBreaker =
  cb_state :: int32
  cb_failures :: int32
  cb_lastFailure :: int64
  cb_config :: CircuitBreakerConfig
  cb_done :: bool

definition NewCircuitBreaker :: "CircuitBreakerConfig \<Rightarrow> CircuitBreaker option" where
  "NewCircuitBreaker cfg =
     Some \<lparr>cb_state = StateClosed, cb_failures = 0, cb_lastFailure = 0,
           cb_config = cfg, cb_done = False\<rparr>"

text \<open>\<^verbatim>\<open>atomic.Int32.CompareAndSwap(old, new)\<close> on a cell holding \<open>cur\<close>: whether it swapped, and the cell.\<close>

definition CompareAndSwap :: "int32 \<Rightarrow> int32 \<Rightarrow> int32 \<Rightarrow> bool \<times> int32" where
  "CompareAndSwap cur old new = (if cur = old then (True, new) else (False, cur))"

text \<open>One firing of the reset timer in \<^verbatim>\<open>resetLoop\<close>, which fires every \<open>ResetInterval\<close>.\<close>

definition resetLoop_tick :: "CircuitBreaker \<Rightarrow> CircuitBreaker" where
  "resetLoop_tick cb =
     (if cb_state cb = StateOpen then
        cb\<lparr>cb_state := snd (CompareAndSwap (cb_state cb) StateOpen StateHalfOpen),
           cb_failures := 0\<rparr>
      else cb)"

definition Allow :: "int \<Rightarrow> CircuitBreaker option \<Rightarrow> bool \<times> CircuitBreaker option" where
  "Allow now p =
     (case p of
        None \<Rightarrow> (True, None)
      | Some cb \<Rightarrow>
          let currentState = cb_state cb in
          if currentState = StateClosed then (True, Some cb)
          else if currentState = StateHalfOpen then (True, Some cb)
          else if currentState = StateOpen then
            (if time_Since now (cb_lastFailure cb) > sint (TimeoutDuration (cb_config cb)) then
               (case CompareAndSwap (cb_state cb) StateOpen StateHalfOpen of
                  (True, s) \<Rightarrow> (True, Some (cb\<lparr>cb_state := s, cb_failures := 0\<rparr>))
                | (False, s) \<Rightarrow> (True, Some (cb\<lparr>cb_state := s\<rparr>)))
             else (False, Some cb))
          else (True, Some cb))"

definition RecordSuccess :: "CircuitBreaker option \<Rightarrow> CircuitBreaker option" where
  "RecordSuccess p =
     (case p of
        None \<Rightarrow> None
      | Some cb \<Rightarrow>
          if cb_state cb = StateHalfOpen then
            Some (cb\<lparr>cb_state := snd (CompareAndSwap (cb_state cb) StateHalfOpen StateClosed),
                     cb_failures := 0\<rparr>)
          else Some cb)"

text \<open>\<^verbatim>\<open>int32(cb.config.MaxFailures)\<close> keeps the low 32 bits of the \<^verbatim>\<open>int\<close>.\<close>

definition RecordFailure :: "int \<Rightarrow> CircuitBreaker option \<Rightarrow> CircuitBreaker option" where
  "RecordFailure now p =
     (case p of
        None \<Rightarrow> None
      | Some cb \<Rightarrow>
          let cb1 = cb\<lparr>cb_lastFailure := UnixNano now\<rparr>;
              failures = cb_failures cb1 + 1;
              cb2 = cb1\<lparr>cb_failures := failures\<rparr>
          in if sint failures \<ge> sint (ucast (MaxFailures (cb_config cb2)) :: int32) then
               Some (cb2\<lparr>cb_state := snd (CompareAndSwap (cb_state cb2) StateClosed StateOpen)\<rparr>)
             else Some cb2)"

definition State :: "CircuitBreaker option \<Rightarrow> CircuitState" where
  "State p = (case p of None \<Rightarrow> StateClosed | Some cb \<Rightarrow> cb_state cb)"

text \<open>\<^verbatim>\<open>CircuitBreaker.Close\<close>: cancels the reset loop and closes \<^verbatim>\<open>done\<close> unless it is closed already.\<close>

definition CircuitBreaker_Close :: "CircuitBreaker option \<Rightarrow> CircuitBreaker option" where
  "CircuitBreaker_Close p =
     (case p of None \<Rightarrow> None | Some cb \<Rightarrow> Some (cb\<lparr>cb_done := True\<rparr>))"

section \<open>Values, errors and panics\<close>

text \<open>
  An \<^verbatim>\<open>interface{}\<close> argument or result is one of a few representative values. An
  \<^verbatim>\<open>error\<close> is the error type that made it, with its fields; \<open>ErrWrap\<close> is
  \<^verbatim>\<open>fmt.Errorf("msg: %w", err)\<close> and \<open>ErrCleanup\<close> is the error \<^verbatim>\<open>Manager.Close\<close> formats
  from its list. A run-time panic ends the call: fallible operations return \<open>panic + 'a\<close>.
\<close>

datatype iface = INil | IInt int | IStr string | IBool bool

datatype error =
    ErrPluginNotFound string
  | ErrFuncNotFound string
  | ErrCircuitBreakerOpen string
  | ErrPluginFree string error
  | ErrMsg string
  | ErrWrap string error
  | ErrCleanup "error list"

datatype panic = PanicNilInterfaceConversion | PanicNilMapAssignment | PanicIndexOutOfRange

section \<open>Metrics (\<^verbatim>\<open>PluginMetrics\<close>)\<close>

record MethodMetrics =
  Count :: int64
  TotalTime :: int64
  MinTime :: int64
  MaxTime :: int64

type_synonym PluginMethodMetrics = "string \<rightharpoonup> MethodMetrics"

record PluginMetrics =
  pm_plugins :: "string \<rightharpoonup> PluginMethodMetrics"
  pm_enabled :: bool

definition NewPluginMetrics :: "bool \<Rightarrow> PluginMetrics" where
  "NewPluginMetrics enabled = \<lparr>pm_plugins = Map.empty, pm_enabled = enabled\<rparr>"

definition SetEnabled :: "PluginMetrics \<Rightarrow> bool \<Rightarrow> PluginMetrics" where
  "SetEnabled m enabled = m\<lparr>pm_enabled := enabled\<rparr>"

definition IsEnabled :: "PluginMetrics \<Rightarrow> bool" where
  "IsEnabled m = pm_enabled m"

text \<open>\<^verbatim>\<open>sync.Map.LoadOrStore\<close>: the value now under the key, and the map.\<close>

definition LoadOrStore :: "('k \<rightharpoonup> 'v) \<Rightarrow> 'k \<Rightarrow> 'v \<Rightarrow> 'v \<times> ('k \<rightharpoonup> 'v)" where
  "LoadOrStore m k v = (case m k of Some a \<Rightarrow> (a, m) | None \<Rightarrow> (v, m(k \<mapsto> v)))"

definition zeroMethodMetrics :: MethodMetrics where
  "zeroMethodMetrics = \<lparr>Count = 0, TotalTime = 0, MinTime = 0, MaxTime = 0\<rparr>"

text \<open>
  The two compare-and-swap loops of \<^verbatim>\<open>RecordMetric\<close> run their body once here: with no
  other writer, the swap of the value just loaded succeeds. The metrics objects are
  reached through pointers, so the updated values are written back into both maps.
\<close>

definition RecordMetric :: "PluginMetrics \<Rightarrow> string \<Rightarrow> string \<Rightarrow> Duration \<Rightarrow> PluginMetrics" where
  "RecordMetric m pluginName funcName duration =
     (if \<not> pm_enabled m then m
      else
        let (pMetrics, plugins1) = LoadOrStore (pm_plugins m) pluginName Map.empty;
            (metrics, methods1) = LoadOrStore pMetrics funcName zeroMethodMetrics;
            durationNanos = duration;
            metrics1 = metrics\<lparr>Count := Count metrics + 1\<rparr>;
            metrics2 = metrics1\<lparr>TotalTime := TotalTime metrics1 + durationNanos\<rparr>;
            metrics3 =
              (let current = MinTime metrics2
               in if current = 0 \<or> sint durationNanos < sint current
                  then metrics2\<lparr>MinTime := durationNanos\<rparr> else metrics2);
            metrics4 =
              (let current = MaxTime metrics3
               in if sint durationNanos > sint current
                  then metrics3\<lparr>MaxTime := durationNanos\<rparr> else metrics3)
        in m\<lparr>pm_plugins := plugins1(pluginName \<mapsto> methods1(funcName \<mapsto> metrics4))\<rparr>)"

text \<open>The metrics of one function of one plugin, if any call of it has been recorded.\<close>

definition methodMetrics :: "PluginMetrics \<Rightarrow> string \<Rightarrow> string \<Rightarrow> MethodMetrics option" where
  "methodMetrics m pluginName funcName =
     (case pm_plugins m pluginName of None \<Rightarrow> None | Some pMetrics \<Rightarrow> pMetrics funcName)"

definition ms :: "int \<Rightarrow> Duration" where
  "ms n = word_of_int (n * 1000000)"

text \<open>How many calls of one function of one plugin the collector has counted.\<close>

definition sampleCount :: "PluginMetrics \<Rightarrow> string \<Rightarrow> string \<Rightarrow> int64" where
  "sampleCount m pluginName funcName =
     (case methodMetrics m pluginName funcName of None \<Rightarrow> 0 | Some mm \<Rightarrow> Count mm)"

section \<open>Configuration\<close>

datatype LogLevel = LogLevelDebug | LogLevelInfo | LogLevelWarn | LogLevelError

text \<open>A Go map that may be nil is an \<open>option\<close>: reading nil finds nothing, writing to it panics.\<close>

record PluginSpecificConfig =
  InitArgs :: "iface list"
  CircuitBreaker :: CircuitBreakerConfig
  MaxConcurrentCalls :: int64
  PluginTimeout :: Duration
  Options :: "(string \<rightharpoonup> iface) option"

record Config =
  PluginDir :: string
  AllowHotReload :: bool
  LogLevel :: LogLevel
  EnableMetrics :: bool
  DefaultPluginConfig :: PluginSpecificConfig
  PluginConfigs :: "string \<rightharpoonup> PluginSpecificConfig"

definition second :: Duration where
  "second = 1000000000"

definition DefaultCircuitBreakerConfig :: CircuitBreakerConfig where
  "DefaultCircuitBreakerConfig =
     \<lparr>Enabled = True, MaxFailures = 5, ResetInterval = 60 * second, TimeoutDuration = 5 * second\<rparr>"

definition DefaultPluginSpecificConfig :: PluginSpecificConfig where
  "DefaultPluginSpecificConfig =
     \<lparr>InitArgs = [], CircuitBreaker = DefaultCircuitBreakerConfig, MaxConcurrentCalls = 100,
      PluginTimeout = 30 * second, Options = Some Map.empty\<rparr>"

definition DefaultConfig :: Config where
  "DefaultConfig =
     \<lparr>PluginDir = [], AllowHotReload = True, LogLevel = LogLevelInfo, EnableMetrics = True,
      DefaultPluginConfig = DefaultPluginSpecificConfig, PluginConfigs = Map.empty\<rparr>"

text \<open>Reading a key of a map that may be nil.\<close>

definition optionsLookup :: "(string \<rightharpoonup> iface) option \<Rightarrow> string \<Rightarrow> iface option" where
  "optionsLookup opts k = (case opts of None \<Rightarrow> None | Some f \<Rightarrow> f k)"

text \<open>
  \<^verbatim>\<open>merged := defaultConfig\<close> copies the struct, not the map behind \<^verbatim>\<open>Options\<close>: the loop
  \<^verbatim>\<open>merged.Options[k] = v\<close> writes into the default's own map, and panics at its first
  entry when that map is nil. The \<open>Options\<close> of the result is that shared map.
\<close>

definition mergeConfig :: "PluginSpecificConfig \<Rightarrow> PluginSpecificConfig \<Rightarrow> panic + PluginSpecificConfig" where
  "mergeConfig defaultConfig specificConfig =
     (let merged = defaultConfig;
          merged1 = (if length (InitArgs specificConfig) > 0
                     then merged\<lparr>InitArgs := InitArgs specificConfig\<rparr> else merged);
          merged2 = (if Enabled (CircuitBreaker specificConfig)
                     then merged1\<lparr>CircuitBreaker := CircuitBreaker specificConfig\<rparr> else merged1);
          merged3 = (if sint (MaxConcurrentCalls specificConfig) > 0
                     then merged2\<lparr>MaxConcurrentCalls := MaxConcurrentCalls specificConfig\<rparr>
                     else merged2);
          merged4 = (if sint (PluginTimeout specificConfig) > 0
                     then merged3\<lparr>PluginTimeout := PluginTimeout specificConfig\<rparr> else merged3)
      in case Options specificConfig of
           None \<Rightarrow> Inr merged4
         | Some so \<Rightarrow>
             if so = Map.empty then Inr merged4
             else (case Options merged4 of
                     None \<Rightarrow> Inl PanicNilMapAssignment
                   | Some mo \<Rightarrow> Inr (merged4\<lparr>Options := Some (mo ++ so)\<rparr>)))"

text \<open>
  \<open>GetPluginConfig\<close> returns the configuration and the \<open>Config\<close> as the call leaves it:
  the default's \<open>Options\<close> map is the one \<open>mergeConfig\<close> wrote into.
\<close>

definition GetPluginConfig :: "Config \<Rightarrow> string \<Rightarrow> panic + (PluginSpecificConfig \<times> Config)" where
  "GetPluginConfig c pluginName =
     (case PluginConfigs c pluginName of
        Some config \<Rightarrow>
          (case mergeConfig (DefaultPluginConfig c) config of
             Inl p \<Rightarrow> Inl p
           | Inr merged \<Rightarrow>
               Inr (merged,
                    c\<lparr>DefaultPluginConfig := (DefaultPluginConfig c)\<lparr>Options := Options merged\<rparr>\<rparr>))
      | None \<Rightarrow> Inr (DefaultPluginConfig c, c))"

section \<open>Go library functions used by the manager\<close>

text \<open>
  \<^verbatim>\<open>strings.TrimPrefix\<close>, \<^verbatim>\<open>strings.TrimSuffix\<close> and \<^verbatim>\<open>strings.Split\<close> (on a one-byte
  separator); \<^verbatim>\<open>filepath.Base\<close> and \<^verbatim>\<open>filepath.Ext\<close> with the separator \<^verbatim>\<open>/\<close>.
\<close>

definition TrimPrefix :: "string \<Rightarrow> string \<Rightarrow> string" where
  "TrimPrefix s prefix =
     (if take (length prefix) s = prefix then drop (length prefix) s else s)"

definition TrimSuffix :: "string \<Rightarrow> string \<Rightarrow> string" where
  "TrimSuffix s suffix =
     (if length suffix \<le> length s \<and> drop (length s - length suffix) s = suffix
      then take (length s - length suffix) s else s)"

fun strings_Split :: "string \<Rightarrow> char \<Rightarrow> string list" where
  "strings_Split [] sep = [[]]"
| "strings_Split (c # cs) sep =
     (if c = sep then [] # strings_Split cs sep
      else (case strings_Split cs sep of [] \<Rightarrow> [[c]] | p # ps \<Rightarrow> (c # p) # ps))"

definition filepath_Base :: "string \<Rightarrow> string" where
  "filepath_Base path =
     (if path = [] then ''.''
      else
        let stripped = rev (dropWhile (\<lambda>c. c = CHR ''/'') (rev path));
            last_elem = rev (takeWhile (\<lambda>c. c \<noteq> CHR ''/'') (rev stripped))
        in if last_elem = [] then ''/'' else last_elem)"

definition filepath_Ext :: "string \<Rightarrow> string" where
  "filepath_Ext path =
     (let tail = takeWhile (\<lambda>c. c \<noteq> CHR ''/'') (rev path)
      in if CHR ''.'' \<in> set tail
         then CHR ''.'' # rev (takeWhile (\<lambda>c. c \<noteq> CHR ''.'') tail) else [])"

text \<open>
  \<^verbatim>\<open>strconv.Atoi\<close> with its error dropped, as \<^verbatim>\<open>n, _ := strconv.Atoi(s)\<close> reads it: 0 on a
  syntax error, the nearest \<^verbatim>\<open>int\<close> on a range error. \<open>ParseUint_loop\<close> is the digit
  loop of \<^verbatim>\<open>strconv.ParseUint\<close> in base 10 at 64 bits: \<open>None\<close> is its syntax error, and the
  flag of \<open>Some\<close> its range error, which it returns as soon as the value overflows.
\<close>

definition isDigit :: "char \<Rightarrow> bool" where
  "isDigit c = (48 \<le> (of_char c :: nat) \<and> (of_char c :: nat) \<le> 57)"

definition digitVal :: "char \<Rightarrow> nat" where
  "digitVal c = of_char c - 48"

fun ParseUint_loop :: "nat \<Rightarrow> string \<Rightarrow> (nat \<times> bool) option" where
  "ParseUint_loop n [] = Some (n, False)"
| "ParseUint_loop n (c # cs) =
     (if \<not> isDigit c then None
      else if n \<ge> (2 ^ 64 - 1) div 10 + 1 then Some (2 ^ 64 - 1, True)
      else
        let n1 = n * 10 + digitVal c
        in if n1 > 2 ^ 64 - 1 then Some (2 ^ 64 - 1, True) else ParseUint_loop n1 cs)"

definition ParseUint :: "string \<Rightarrow> (nat \<times> bool) option" where
  "ParseUint s = (if s = [] then None else ParseUint_loop 0 s)"

definition Atoi :: "string \<Rightarrow> int" where
  "Atoi s =
     (if s = [] then 0
      else
        let neg = (hd s = CHR ''-'');
            s1 = (if hd s = CHR ''+'' \<or> hd s = CHR ''-'' then tl s else s)
        in case ParseUint s1 of
             None \<Rightarrow> 0
           | Some (un, _) \<Rightarrow>
               if \<not> neg \<and> un \<ge> 2 ^ 63 then 2 ^ 63 - 1
               else if neg \<and> un > 2 ^ 63 then - (2 ^ 63)
               else if neg then - int un else int un)"

section \<open>Plugins (\<^verbatim>\<open>Bureau\<close>, \<^verbatim>\<open>Plugin\<close>)\<close>

text \<open>
  A \<^verbatim>\<open>Bureau\<close> is code of the plugin: its name and version are taken as fixed, and
  \<^verbatim>\<open>Init\<close> and \<^verbatim>\<open>Free\<close> answer with an error or \<open>None\<close> (nil). What the manager does to a
  plugin is visible only as calls of these two methods, which the manager's state logs
  in order (\<open>event\<close>). An \<^verbatim>\<open>InvokeFunc\<close> maps the arguments to a result and an error; the
  context it also receives is left out.
\<close>

record Bureau =
  b_Name :: string
  b_Version :: string
  b_Init :: "iface list \<Rightarrow> error option"
  b_Free :: "error option"

type_synonym InvokeFunc = "iface list \<Rightarrow> iface \<times> error option"

record Plugin =
  bureau :: Bureau
  funcs :: "string \<rightharpoonup> InvokeFunc"
  refs :: int32

datatype event = EvInit Bureau "iface list" | EvFree Bureau

definition NewPlugin :: "Bureau \<Rightarrow> Plugin" where
  "NewPlugin b = \<lparr>bureau = b, funcs = Map.empty, refs = 0\<rparr>"

definition Plugin_Version :: "Plugin \<Rightarrow> string" where
  "Plugin_Version p = b_Version (bureau p)"

definition RegisterFunc :: "Plugin \<Rightarrow> string \<Rightarrow> InvokeFunc \<Rightarrow> Plugin" where
  "RegisterFunc p name fn = p\<lparr>funcs := (funcs p)(name \<mapsto> fn)\<rparr>"

definition Plugin_Call :: "Plugin \<Rightarrow> string \<Rightarrow> iface list \<Rightarrow> iface \<times> error option" where
  "Plugin_Call p name args =
     (case funcs p name of
        None \<Rightarrow> (INil, Some (ErrFuncNotFound name))
      | Some fn \<Rightarrow> fn args)"

section \<open>Manager\<close>

datatype PluginState = StateActive | StateDeprecated

record PluginInstance =
  pi_Plugin :: Plugin
  pi_state :: PluginState
  pi_version :: string

text \<open>
  Each \<^verbatim>\<open>sync.Map\<close> of the manager is an association list: \<^verbatim>\<open>Load\<close> is \<open>map_of\<close>,
  \<^verbatim>\<open>Store\<close> is \<open>AList.update\<close>, \<^verbatim>\<open>Delete\<close> is \<open>AList.delete\<close>, and \<^verbatim>\<open>Range\<close> visits the
  entries in the order of the list, which stands for whatever order the map yields. The
  maps hold pointers, so a write through a loaded pointer is a write to the entry.
  \<open>m_calls\<close> is the log of the \<^verbatim>\<open>Init\<close> and \<^verbatim>\<open>Free\<close> calls made so far.
\<close>

record Manager =
  m_plugins :: "(string \<times> PluginInstance) list"
  m_pluginPaths :: "(string \<times> string) list"
  m_breakers :: "(string \<times> CircuitBreaker option) list"
  m_metrics :: PluginMetrics
  m_config :: Config
  m_cancelled :: bool
  m_calls :: "event list"

text \<open>
  The manager as \<^verbatim>\<open>NewManager\<close> builds it: its \<^verbatim>\<open>Manager\<close> literal, before the plugin
  directory is loaded (a sequence of \<open>LoadPluginWithConfig\<close> calls).
\<close>

definition emptyManager :: "Config \<Rightarrow> Manager" where
  "emptyManager config =
     \<lparr>m_plugins = [], m_pluginPaths = [], m_breakers = [],
      m_metrics = NewPluginMetrics (EnableMetrics config), m_config = config,
      m_cancelled = False, m_calls = []\<rparr>"

definition getPluginNameFromPath :: "string \<Rightarrow> string" where
  "getPluginNameFromPath path =
     (let base = filepath_Base path in TrimSuffix base (filepath_Ext base))"

text \<open>
  The padding loops of \<open>isHigherVersion\<close> append \<^verbatim>\<open>"0"\<close> while a version has fewer than
  three parts. Its comparison loop runs over the indices of \<open>v1\<close>; reading \<open>v2\<close> at an
  index it does not have is Go's index-out-of-range panic.
\<close>

definition padParts :: "string list \<Rightarrow> string list" where
  "padParts v = v @ replicate (3 - length v) ''0''"

fun compareParts :: "string list \<Rightarrow> string list \<Rightarrow> panic + bool" where
  "compareParts [] v2 = Inr False"
| "compareParts (a # v1) [] = Inl PanicIndexOutOfRange"
| "compareParts (a # v1) (b # v2) =
     (let n1 = Atoi a; n2 = Atoi b
      in if n1 > n2 then Inr True
         else if n1 < n2 then Inr False
         else compareParts v1 v2)"

definition isHigherVersion :: "string \<Rightarrow> string \<Rightarrow> panic + bool" where
  "isHigherVersion new current =
     (let v1 = strings_Split (TrimPrefix new ''v'') (CHR ''.'');
          v2 = strings_Split (TrimPrefix current ''v'') (CHR ''.'')
      in compareParts (padParts v1) (padParts v2))"

text \<open>
  \<open>LoadPluginWithConfig\<close>. The loader (\<^verbatim>\<open>Loader.Load\<close>, which opens a shared object) is the
  parameter \<open>load\<close>: what loading a path yields. \<open>registerPlugin\<close> is the second half of
  the function, from \<^verbatim>\<open>plugin.Init\<close> to the three \<^verbatim>\<open>Store\<close> calls; the first half falls
  through to it after marking a lower-versioned current instance deprecated. The error
  \<^verbatim>\<open>plugin.Free()\<close> returns is dropped at both call sites.
\<close>

definition registerPlugin ::
    "Manager \<Rightarrow> string \<Rightarrow> string \<Rightarrow> PluginSpecificConfig \<Rightarrow> Plugin \<Rightarrow> error option \<times> Manager" where
  "registerPlugin m pluginName path config plugin =
     (let m1 = m\<lparr>m_calls := m_calls m @ [EvInit (bureau plugin) (InitArgs config)]\<rparr>
      in case b_Init (bureau plugin) (InitArgs config) of
           Some err \<Rightarrow>
             (Some (ErrWrap ''failed to initialize plugin'' err),
              m1\<lparr>m_calls := m_calls m1 @ [EvFree (bureau plugin)]\<rparr>)
         | None \<Rightarrow>
             let breaker = NewCircuitBreaker (CircuitBreaker config);
                 instance = \<lparr>pi_Plugin = plugin, pi_state = StateActive,
                             pi_version = Plugin_Version plugin\<rparr>
             in (None,
                 m1\<lparr>m_plugins := AList.update pluginName instance (m_plugins m1),
                    m_pluginPaths := AList.update pluginName path (m_pluginPaths m1),
                    m_breakers := AList.update pluginName breaker (m_breakers m1)\<rparr>))"

definition LoadPluginWithConfig ::
    "(string \<Rightarrow> error + Plugin) \<Rightarrow> Manager \<Rightarrow> string \<Rightarrow> PluginSpecificConfig option
      \<Rightarrow> panic + (error option \<times> Manager)" where
  "LoadPluginWithConfig load m path cfg =
     (let pluginName = getPluginNameFromPath path;
          config = (case cfg of None \<Rightarrow> DefaultPluginConfig (m_config m) | Some c \<Rightarrow> c)
      in case load path of
           Inl err \<Rightarrow> Inr (Some (ErrWrap ''failed to load plugin'' err), m)
         | Inr plugin \<Rightarrow>
             (case map_of (m_plugins m) pluginName of
                Some oldInstance \<Rightarrow>
                  (case isHigherVersion (Plugin_Version plugin) (pi_version oldInstance) of
                     Inl p \<Rightarrow> Inl p
                   | Inr False \<Rightarrow>
                       Inr (None, m\<lparr>m_calls := m_calls m @ [EvFree (bureau plugin)]\<rparr>)
                   | Inr True \<Rightarrow>
                       Inr (registerPlugin
                              (m\<lparr>m_plugins :=
                                   AList.update pluginName
                                     (oldInstance\<lparr>pi_state := StateDeprecated\<rparr>) (m_plugins m)\<rparr>)
                              pluginName path config plugin))
              | None \<Rightarrow> Inr (registerPlugin m pluginName path config plugin)))"

definition LoadPlugin ::
    "(string \<Rightarrow> error + Plugin) \<Rightarrow> Manager \<Rightarrow> string \<Rightarrow> panic + (error option \<times> Manager)" where
  "LoadPlugin load m path = LoadPluginWithConfig load m path None"

text \<open>
  \<open>Call\<close>. The clock is read three times: by \<^verbatim>\<open>Allow\<close>, around the plugin function
  (\<open>elapsed\<close>, the measured duration) and by \<^verbatim>\<open>RecordFailure\<close>. A name with no entry in
  \<^verbatim>\<open>m.breakers\<close> makes \<^verbatim>\<open>Load\<close> return a nil interface, and the unchecked type assertion
  \<^verbatim>\<open>breakerVal.(*CircuitBreaker)\<close> on it panics.
\<close>

record CallClock =
  atAllow :: int
  elapsed :: Duration
  atRecordFailure :: int

definition Call ::
    "Manager \<Rightarrow> CallClock \<Rightarrow> string \<Rightarrow> string \<Rightarrow> iface list
      \<Rightarrow> panic + ((iface \<times> error option) \<times> Manager)" where
  "Call m clock pluginName funcName args =
     (case map_of (m_plugins m) pluginName of
        None \<Rightarrow> Inr ((INil, Some (ErrPluginNotFound pluginName)), m)
      | Some instance \<Rightarrow>
          (case map_of (m_breakers m) pluginName of
             None \<Rightarrow> Inl PanicNilInterfaceConversion
           | Some breaker \<Rightarrow>
               let (allowed, breaker1) =
                     (if breaker \<noteq> None then Allow (atAllow clock) breaker else (True, breaker));
                   m1 = m\<lparr>m_breakers := AList.update pluginName breaker1 (m_breakers m)\<rparr>
               in if breaker \<noteq> None \<and> \<not> allowed then
                    Inr ((INil, Some (ErrCircuitBreakerOpen pluginName)), m1)
                  else
                    let (result, err) = Plugin_Call (pi_Plugin instance) funcName args;
                        duration = elapsed clock
                    in case err of
                         Some e \<Rightarrow>
                           let breaker2 =
                                 (if breaker1 \<noteq> None
                                  then RecordFailure (atRecordFailure clock) breaker1
                                  else breaker1)
                           in Inr ((INil, Some e),
                                   m1\<lparr>m_breakers :=
                                        AList.update pluginName breaker2 (m_breakers m1)\<rparr>)
                       | None \<Rightarrow>
                           let breaker2 =
                                 (if breaker1 \<noteq> None then RecordSuccess breaker1 else breaker1);
                               metrics' =
                                 (if IsEnabled (m_metrics m1)
                                  then RecordMetric (m_metrics m1) pluginName funcName duration
                                  else m_metrics m1)
                           in Inr ((result, None),
                                   m1\<lparr>m_breakers :=
                                        AList.update pluginName breaker2 (m_breakers m1),
                                      m_metrics := metrics'\<rparr>)))"

definition IsCircuitBreakerOpen :: "Manager \<Rightarrow> int \<Rightarrow> string \<Rightarrow> panic + (bool \<times> Manager)" where
  "IsCircuitBreakerOpen m now pluginName =
     (case map_of (m_breakers m) pluginName of
        None \<Rightarrow> Inl PanicNilInterfaceConversion
      | Some breaker \<Rightarrow>
          if breaker = None then Inr (False, m)
          else
            let (allowed, breaker1) = Allow now breaker
            in Inr (\<not> allowed,
                    m\<lparr>m_breakers := AList.update pluginName breaker1 (m_breakers m)\<rparr>))"

definition GetBreakerStatus :: "Manager \<Rightarrow> int \<Rightarrow> string \<Rightarrow> panic + (bool \<times> Manager)" where
  "GetBreakerStatus m now pluginName =
     (case map_of (m_breakers m) pluginName of
        None \<Rightarrow> Inl PanicNilInterfaceConversion
      | Some breaker \<Rightarrow>
          if breaker = None then Inr (False, m)
          else
            let (allowed, breaker1) = Allow now breaker
            in Inr (\<not> allowed,
                    m\<lparr>m_breakers := AList.update pluginName breaker1 (m_breakers m)\<rparr>))"

record PluginInfo =
  info_Name :: string
  info_Version :: string
  info_State :: PluginState
  info_RefCount :: int32
  info_Path :: string

definition ListPlugins :: "Manager \<Rightarrow> PluginInfo list" where
  "ListPlugins m =
     map (\<lambda>(name, instance).
            \<lparr>info_Name = name, info_Version = pi_version instance,
             info_State = pi_state instance, info_RefCount = 0, info_Path = []\<rparr>)
         (m_plugins m)"

text \<open>
  \<open>Close\<close>: cancel the context, close every non-nil breaker, then range over the plugins.
  \<open>freePlugins\<close> is that last \<^verbatim>\<open>Range\<close>: for each entry it calls \<^verbatim>\<open>Free\<close>, appends an
  \<^verbatim>\<open>ErrPluginFree\<close> to \<open>errs\<close> if it failed, and deletes the key. Waiting for the
  background tasks, closing the watcher and the pause of 100 ms change nothing modelled.
\<close>

fun freePlugins ::
    "(string \<times> PluginInstance) list \<Rightarrow> error list \<Rightarrow> Manager \<Rightarrow> error list \<times> Manager" where
  "freePlugins [] errs m = (errs, m)"
| "freePlugins ((name, instance) # rest) errs m =
     (let m1 = m\<lparr>m_calls := m_calls m @ [EvFree (bureau (pi_Plugin instance))]\<rparr>;
          errs1 = (case b_Free (bureau (pi_Plugin instance)) of
                     Some err \<Rightarrow> errs @ [ErrPluginFree name err]
                   | None \<Rightarrow> errs);
          m2 = m1\<lparr>m_plugins := AList.delete name (m_plugins m1)\<rparr>
      in freePlugins rest errs1 m2)"

definition Close :: "Manager \<Rightarrow> error option \<times> Manager" where
  "Close m =
     (let m1 = m\<lparr>m_cancelled := True\<rparr>;
          m2 = m1\<lparr>m_breakers :=
                    map (\<lambda>(name, breaker).
                           (name, if breaker \<noteq> None then CircuitBreaker_Close breaker else breaker))
                        (m_breakers m1)\<rparr>;
          (errs, m3) = freePlugins (m_plugins m2) [] m2
      in if length errs > 0 then (Some (ErrCleanup errs), m3) else (None, m3))"

text \<open>
  The \<^verbatim>\<open>ErrPluginFree\<close> errors of the instances whose \<^verbatim>\<open>Free\<close> fails, in the order of the
  entries: what a teardown of all of them has to report.
\<close>

definition teardownErrors :: "(string \<times> PluginInstance) list \<Rightarrow> error list" where
  "teardownErrors ps =
     concat (map (\<lambda>(name, instance).
                    case b_Free (bureau (pi_Plugin instance)) of
                      Some err \<Rightarrow> [ErrPluginFree name err]
                    | None \<Rightarrow> [])
                 ps)"

text \<open>
  Consecutive calls of one function, one per clock reading: the errors the calls
  returned, in order, and the manager they leave.
\<close>

fun Calls ::
    "Manager \<Rightarrow> CallClock list \<Rightarrow> string \<Rightarrow> string \<Rightarrow> iface list
      \<Rightarrow> panic + (error option list \<times> Manager)" where
  "Calls m [] pluginName funcName args = Inr ([], m)"
| "Calls m (clock # clocks) pluginName funcName args =
     (case Call m clock pluginName funcName args of
        Inl p \<Rightarrow> Inl p
      | Inr ((result, err), m1) \<Rightarrow>
          (case Calls m1 clocks pluginName funcName args of
             Inl p \<Rightarrow> Inl p
           | Inr (errs, m2) \<Rightarrow> Inr (err # errs, m2)))"

section \<open>Version comparison as the specification words it\<close>











section \<open>Fixtures\<close>

text \<open>
  The mock of \<^verbatim>\<open>manager_test.go\<close>: a bureau named \<^verbatim>\<open>mock-plugin\<close> whose \<^verbatim>\<open>Init\<close> and \<^verbatim>\<open>Free\<close>
  return nil, and the breaker configuration the tests use (five failures, one second).
\<close>

definition mockBureau :: "string \<Rightarrow> Bureau" where
  "mockBureau version =
     \<lparr>b_Name = ''mock-plugin'', b_Version = version, b_Init = (\<lambda>args. None), b_Free = None\<rparr>"

definition testBreakerConfig :: CircuitBreakerConfig where
  "testBreakerConfig =
     \<lparr>Enabled = True, MaxFailures = 5, ResetInterval = second, TimeoutDuration = second\<rparr>"

text \<open>A breaker that has tripped and been let through again: half-open, four failures since.\<close>

definition halfOpenBreaker :: CircuitBreaker where
  "halfOpenBreaker =
     \<lparr>cb_state = StateHalfOpen, cb_failures = 4, cb_lastFailure = 1000,
      cb_config = testBreakerConfig, cb_done = False\<rparr>"

text \<open>
  Configurations: an override whose breaker settings are filled in but not enabled, the
  zero value of \<^verbatim>\<open>CircuitBreakerConfig\<close>, an override that sets arguments, breaker, timeout
  and one option, and a default with two options.
\<close>

definition disabledBreakerOverride :: PluginSpecificConfig where
  "disabledBreakerOverride =
     \<lparr>InitArgs = [],
      CircuitBreaker = \<lparr>Enabled = False, MaxFailures = 3, ResetInterval = second,
                         TimeoutDuration = second\<rparr>,
      MaxConcurrentCalls = 0, PluginTimeout = 0, Options = None\<rparr>"

definition zeroCircuitBreakerConfig :: CircuitBreakerConfig where
  "zeroCircuitBreakerConfig =
     \<lparr>Enabled = False, MaxFailures = 0, ResetInterval = 0, TimeoutDuration = 0\<rparr>"

definition overrideConfig :: PluginSpecificConfig where
  "overrideConfig =
     \<lparr>InitArgs = [IStr ''dsn''],
      CircuitBreaker = \<lparr>Enabled = True, MaxFailures = 2, ResetInterval = second,
                         TimeoutDuration = second\<rparr>,
      MaxConcurrentCalls = 0, PluginTimeout = 2 * second,
      Options = Some [''region'' \<mapsto> IStr ''eu'']\<rparr>"

definition defaultWithOptions :: PluginSpecificConfig where
  "defaultWithOptions =
     DefaultPluginSpecificConfig
       \<lparr>Options := Some [''region'' \<mapsto> IStr ''us'', ''tier'' \<mapsto> IInt 1]\<rparr>"

text \<open>
  The manager of the tests: one plugin, version 1.0.0, stored under \<^verbatim>\<open>test-plugin\<close> with a
  function that succeeds and one that fails, metrics enabled. \<open>testManager\<close> also has the
  plugin's breaker; \<open>unguardedManager\<close> has the plugin and no breaker entry, as after
  the \<^verbatim>\<open>m.plugins.Store\<close> of \<^verbatim>\<open>TestManager_LoadPlugin\<close>.
\<close>

definition testPlugin :: Plugin where
  "testPlugin =
     \<lparr>bureau = mockBureau ''1.0.0'',
      funcs = [''TestFunc'' \<mapsto> (\<lambda>args. (IStr ''test result'', None)),
               ''FailingFunc'' \<mapsto> (\<lambda>args. (INil, Some (ErrMsg ''test error'')))],
      refs = 0\<rparr>"

definition testInstance :: PluginInstance where
  "testInstance = \<lparr>pi_Plugin = testPlugin, pi_state = StateActive, pi_version = ''1.0.0''\<rparr>"

definition testConfig :: Config where
  "testConfig =
     \<lparr>PluginDir = ''/tmp/plugins'', AllowHotReload = False, LogLevel = LogLevelDebug,
      EnableMetrics = True,
      DefaultPluginConfig =
        \<lparr>InitArgs = [], CircuitBreaker = testBreakerConfig, MaxConcurrentCalls = 0,
         PluginTimeout = 0, Options = None\<rparr>,
      PluginConfigs = Map.empty\<rparr>"

definition unguardedManager :: Manager where
  "unguardedManager = (emptyManager testConfig)\<lparr>m_plugins := [(''test-plugin'', testInstance)]\<rparr>"

definition testManager :: Manager where
  "testManager =
     unguardedManager\<lparr>m_breakers := [(''test-plugin'', NewCircuitBreaker testBreakerConfig)]\<rparr>"

definition testClock :: CallClock where
  "testClock = \<lparr>atAllow = 5000, elapsed = 300, atRecordFailure = 5400\<rparr>"

text \<open>
  Bureaus that fail: one whose \<^verbatim>\<open>Init\<close> returns an error, one whose \<^verbatim>\<open>Free\<close> does. A loader
  that yields a given plugin for every path. A manager with two plugins, the first of
  which fails to free.
\<close>

definition brokenInitBureau :: "string \<Rightarrow> Bureau" where
  "brokenInitBureau version =
     (mockBureau version)\<lparr>b_Init := (\<lambda>args. Some (ErrMsg ''init failed''))\<rparr>"

definition brokenFreeBureau :: "string \<Rightarrow> Bureau" where
  "brokenFreeBureau version = (mockBureau version)\<lparr>b_Free := Some (ErrMsg ''free failed'')\<rparr>"

definition loads :: "Plugin \<Rightarrow> string \<Rightarrow> error + Plugin" where
  "loads plugin path = Inr plugin"

definition twoPluginManager :: Manager where
  "twoPluginManager =
     (emptyManager testConfig)
       \<lparr>m_plugins :=
          [(''alpha'', \<lparr>pi_Plugin = NewPlugin (brokenFreeBureau ''1.0.0''), pi_state = StateActive,
                        pi_version = ''1.0.0''\<rparr>),
           (''beta'', \<lparr>pi_Plugin = NewPlugin (mockBureau ''0.3.0''), pi_state = StateActive,
                       pi_version = ''0.3.0''\<rparr>)]\<rparr>"


definition trippedManager :: Manager where
  "trippedManager =
     testManager
       \<lparr>m_breakers :=
          [(''test-plugin'',
            Some \<lparr>cb_state = StateOpen, cb_failures = 5, cb_lastFailure = 1000,
                  cb_config = testBreakerConfig, cb_done = False\<rparr>)]\<rparr>"

definition laterClock :: CallClock where
  "laterClock = \<lparr>atAllow = 7000000000, elapsed = 300, atRecordFailure = 7000000400\<rparr>"

section \<open>The circuit breaker's operations\<close>

lemmas CircuitState_defs = StateClosed_def StateOpen_def StateHalfOpen_def

lemma Allow_nil: "Allow now None = (True, None)"
  by (simp add: Allow_def)

lemma Allow_Closed:
  "cb_state cb = StateClosed \<Longrightarrow> Allow now (Some cb) = (True, Some cb)"
  by (simp add: Allow_def)

lemma Allow_HalfOpen:
  "cb_state cb = StateHalfOpen \<Longrightarrow> Allow now (Some cb) = (True, Some cb)"
  by (simp add: Allow_def CircuitState_defs)

lemma Allow_Open:
  "cb_state cb = StateOpen \<Longrightarrow>
   Allow now (Some cb) =
     (if time_Since now (cb_lastFailure cb) > sint (TimeoutDuration (cb_config cb))
      then (True, Some (cb\<lparr>cb_state := StateHalfOpen, cb_failures := 0\<rparr>))
      else (False, Some cb))"
  by (simp add: Allow_def CompareAndSwap_def CircuitState_defs)

text \<open>
  C3. \<open>Allow\<close> on a nil breaker is true. On a closed or half-open breaker it is true and
  changes nothing. On an open breaker it is true exactly when the time since the last
  recorded failure exceeds \<open>TimeoutDuration\<close>; the breaker is then half-open with a failure
  counter of zero, and otherwise \<open>Allow\<close> is false and the breaker is unchanged.
\<close>

theorem Allow_by_state:
  "Allow now None = (True, None) \<and>
   (cb_state cb = StateClosed \<or> cb_state cb = StateHalfOpen \<longrightarrow>
      Allow now (Some cb) = (True, Some cb)) \<and>
   (cb_state cb = StateOpen \<longrightarrow>
      fst (Allow now (Some cb))
        = (time_Since now (cb_lastFailure cb) > sint (TimeoutDuration (cb_config cb))) \<and>
      snd (Allow now (Some cb))
        = (if time_Since now (cb_lastFailure cb) > sint (TimeoutDuration (cb_config cb))
           then Some (cb\<lparr>cb_state := StateHalfOpen, cb_failures := 0\<rparr>)
           else Some cb))"
  using Allow_nil Allow_Closed Allow_HalfOpen Allow_Open by simp

theorem Allow_by_state_witness:
  "Allow 7000000000 None = (True, None) \<and>
   Allow 7000000000 (Some halfOpenBreaker) = (True, Some halfOpenBreaker) \<and>
   Allow 7000000000 (Some (halfOpenBreaker\<lparr>cb_state := StateClosed\<rparr>))
     = (True, Some (halfOpenBreaker\<lparr>cb_state := StateClosed\<rparr>)) \<and>
   Allow 7000000000 (Some (halfOpenBreaker\<lparr>cb_state := StateOpen\<rparr>))
     = (True, Some (halfOpenBreaker\<lparr>cb_state := StateHalfOpen, cb_failures := 0\<rparr>)) \<and>
   Allow 2000 (Some (halfOpenBreaker\<lparr>cb_state := StateOpen\<rparr>))
     = (False, Some (halfOpenBreaker\<lparr>cb_state := StateOpen\<rparr>))"
  using Allow_by_state [of 7000000000 halfOpenBreaker]
    Allow_by_state [of 7000000000 "halfOpenBreaker\<lparr>cb_state := StateClosed\<rparr>"]
    Allow_by_state [of 7000000000 "halfOpenBreaker\<lparr>cb_state := StateOpen\<rparr>"]
    Allow_by_state [of 2000 "halfOpenBreaker\<lparr>cb_state := StateOpen\<rparr>"]
  by (simp add: halfOpenBreaker_def testBreakerConfig_def second_def time_Since_def
      prod_eq_iff)

text \<open>
  \<open>RecordFailure\<close> opens the breaker only from the closed state: its compare-and-swap
  expects \<open>StateClosed\<close>, so a half-open breaker stays half-open whatever the counter.
\<close>

lemma RecordFailure_HalfOpen_stays:
  "cb_state cb = StateHalfOpen \<Longrightarrow> State (RecordFailure now (Some cb)) = StateHalfOpen"
  by (simp add: RecordFailure_def CompareAndSwap_def CircuitState_defs State_def Let_def)

lemma RecordFailure_Closed:
  "cb_state cb = StateClosed \<Longrightarrow>
   RecordFailure now (Some cb) =
     Some (cb\<lparr>cb_lastFailure := UnixNano now, cb_failures := cb_failures cb + 1,
              cb_state := (if sint (cb_failures cb + 1)
                                \<ge> sint (ucast (MaxFailures (cb_config cb)) :: int32)
                           then StateOpen else StateClosed)\<rparr>)"
  by (simp add: RecordFailure_def CompareAndSwap_def Let_def)

text \<open>
  C1. With \<open>maxFailures = 5\<close>, a half-open breaker with four failures records a fifth: the
  counter reaches 5 and the state is still \<open>StateHalfOpen\<close>, not \<open>StateOpen\<close>.
\<close>

theorem RecordFailure_HalfOpen_at_threshold:
  "RecordFailure 2000 (Some halfOpenBreaker) =
     Some \<lparr>cb_state = StateHalfOpen, cb_failures = 5, cb_lastFailure = 2000,
           cb_config = testBreakerConfig, cb_done = False\<rparr>"
  by (simp add: RecordFailure_def CompareAndSwap_def CircuitState_defs UnixNano_def
      halfOpenBreaker_def testBreakerConfig_def)

section \<open>Recording metrics\<close>

text \<open>One recorded call: a first sample of a function, and a later one.\<close>

lemma RecordMetric_enabled: "pm_enabled (RecordMetric m p f d) = pm_enabled m"
  by (cases "pm_plugins m p"; cases "the (pm_plugins m p) f")
     (simp_all add: RecordMetric_def LoadOrStore_def Let_def)

lemma RecordMetric_fresh:
  assumes "pm_enabled m" and "methodMetrics m p f = None"
  shows "methodMetrics (RecordMetric m p f d) p f
     = Some \<lparr>Count = 1, TotalTime = d, MinTime = d, MaxTime = (if sint d > 0 then d else 0)\<rparr>"
proof (cases "pm_plugins m p")
  case None
  with assms(1) show ?thesis
    by (simp add: RecordMetric_def methodMetrics_def LoadOrStore_def zeroMethodMetrics_def Let_def)
next
  case (Some pMetrics)
  with assms(2) have "pMetrics f = None" by (simp add: methodMetrics_def)
  with Some assms(1) show ?thesis
    by (simp add: RecordMetric_def methodMetrics_def LoadOrStore_def zeroMethodMetrics_def Let_def)
qed

lemma RecordMetric_again:
  assumes "pm_enabled m" and "methodMetrics m p f = Some mm"
  shows "methodMetrics (RecordMetric m p f d) p f
     = Some \<lparr>Count = Count mm + 1, TotalTime = TotalTime mm + d,
             MinTime = (if MinTime mm = 0 \<or> sint d < sint (MinTime mm) then d else MinTime mm),
             MaxTime = (if sint d > sint (MaxTime mm) then d else MaxTime mm)\<rparr>"
proof (cases "pm_plugins m p")
  case None
  with assms(2) show ?thesis by (simp add: methodMetrics_def)
next
  case (Some pMetrics)
  with assms(2) have "pMetrics f = Some mm" by (simp add: methodMetrics_def)
  with Some assms(1) show ?thesis
    by (simp add: RecordMetric_def methodMetrics_def LoadOrStore_def Let_def)
qed

text \<open>
  C6. On an enabled collector that holds nothing yet for function \<open>f\<close> of plugin \<open>p\<close>,
  recording 10 ms, 1 ms and 50 ms in this order leaves count 3, total 61 ms, minimum
  1 ms and maximum 50 ms for that function.
\<close>

theorem RecordMetric_three_samples:
  assumes "pm_enabled m" and "methodMetrics m p f = None"
  shows "methodMetrics
     (RecordMetric (RecordMetric (RecordMetric m p f (ms 10)) p f (ms 1)) p f (ms 50)) p f
     = Some \<lparr>Count = 3, TotalTime = ms 61, MinTime = ms 1, MaxTime = ms 50\<rparr>"
proof -
  let ?m1 = "RecordMetric m p f (ms 10)"
  let ?m2 = "RecordMetric ?m1 p f (ms 1)"
  have 1: "methodMetrics ?m1 p f
      = Some \<lparr>Count = 1, TotalTime = ms 10, MinTime = ms 10, MaxTime = ms 10\<rparr>"
    using RecordMetric_fresh [OF assms, of "ms 10"] by (simp add: ms_def)
  have e1: "pm_enabled ?m1" using assms(1) by (simp add: RecordMetric_enabled)
  have 2: "methodMetrics ?m2 p f
      = Some \<lparr>Count = 2, TotalTime = ms 11, MinTime = ms 1, MaxTime = ms 10\<rparr>"
    using RecordMetric_again [OF e1 1, of "ms 1"] by (simp add: ms_def)
  have e2: "pm_enabled ?m2" using e1 by (simp add: RecordMetric_enabled)
  show ?thesis
    using RecordMetric_again [OF e2 2, of "ms 50"] by (simp add: ms_def)
qed

theorem RecordMetric_three_samples_witness:
  "methodMetrics
     (RecordMetric
        (RecordMetric (RecordMetric (NewPluginMetrics True) ''p'' ''f'' (ms 10)) ''p'' ''f'' (ms 1))
        ''p'' ''f'' (ms 50)) ''p'' ''f''
     = Some \<lparr>Count = 3, TotalTime = 61000000, MinTime = 1000000, MaxTime = 50000000\<rparr>"
  using RecordMetric_three_samples [of "NewPluginMetrics True" "''p''" "''f''"]
  by (simp add: NewPluginMetrics_def methodMetrics_def ms_def)

section \<open>Configuration merge\<close>

lemma mergeConfig_fields:
  assumes "mergeConfig d s = Inr merged"
  shows "InitArgs merged = (if InitArgs s \<noteq> [] then InitArgs s else InitArgs d)"
    and "CircuitBreaker merged
           = (if Enabled (CircuitBreaker s) then CircuitBreaker s else CircuitBreaker d)"
    and "MaxConcurrentCalls merged
           = (if sint (MaxConcurrentCalls s) > 0 then MaxConcurrentCalls s
              else MaxConcurrentCalls d)"
    and "PluginTimeout merged
           = (if sint (PluginTimeout s) > 0 then PluginTimeout s else PluginTimeout d)"
    and "optionsLookup (Options merged) k
           = (case optionsLookup (Options s) k of
                Some v \<Rightarrow> Some v
              | None \<Rightarrow> optionsLookup (Options d) k)"
  using assms
  by (auto simp add: mergeConfig_def Let_def optionsLookup_def map_add_def
      split: option.splits if_splits)

lemma mergeConfig_returns:
  assumes "Options d \<noteq> None \<or> Options s = None \<or> Options s = Some Map.empty"
  shows "\<exists>merged. mergeConfig d s = Inr merged"
  using assms
  by (auto simp add: mergeConfig_def Let_def split: option.splits)

text \<open>
  C8, as the code has it. For a plugin with an override, on a default whose \<open>Options\<close>
  map is not nil (or with an override that has no options), \<open>GetPluginConfig\<close> returns the
  default with \<open>InitArgs\<close> replaced when the override's is non-empty, \<open>CircuitBreaker\<close>
  replaced exactly when the override's breaker is \<open>Enabled\<close>, \<open>MaxConcurrentCalls\<close> and
  \<open>PluginTimeout\<close> replaced exactly when the override's is positive, and the options
  merged key by key, the override's value winning.
\<close>

theorem GetPluginConfig_merge:
  assumes "PluginConfigs c pluginName = Some s"
    and "Options (DefaultPluginConfig c) \<noteq> None \<or> Options s = None \<or> Options s = Some Map.empty"
  shows "\<exists>merged c'. GetPluginConfig c pluginName = Inr (merged, c') \<and>
     InitArgs merged = (if InitArgs s \<noteq> [] then InitArgs s else InitArgs (DefaultPluginConfig c)) \<and>
     CircuitBreaker merged
       = (if Enabled (CircuitBreaker s) then CircuitBreaker s
          else CircuitBreaker (DefaultPluginConfig c)) \<and>
     MaxConcurrentCalls merged
       = (if sint (MaxConcurrentCalls s) > 0 then MaxConcurrentCalls s
          else MaxConcurrentCalls (DefaultPluginConfig c)) \<and>
     PluginTimeout merged
       = (if sint (PluginTimeout s) > 0 then PluginTimeout s
          else PluginTimeout (DefaultPluginConfig c)) \<and>
     (\<forall>k. optionsLookup (Options merged) k
        = (case optionsLookup (Options s) k of
             Some v \<Rightarrow> Some v
           | None \<Rightarrow> optionsLookup (Options (DefaultPluginConfig c)) k))"
proof -
  obtain merged where m: "mergeConfig (DefaultPluginConfig c) s = Inr merged"
    using mergeConfig_returns [OF assms(2)] by blast
  have "GetPluginConfig c pluginName
      = Inr (merged, c\<lparr>DefaultPluginConfig := (DefaultPluginConfig c)\<lparr>Options := Options merged\<rparr>\<rparr>)"
    using assms(1) m by (simp add: GetPluginConfig_def)
  then show ?thesis
    using mergeConfig_fields [OF m] by simp
qed

theorem GetPluginConfig_merge_witness:
  "(case GetPluginConfig (DefaultConfig\<lparr>DefaultPluginConfig := defaultWithOptions,
                                        PluginConfigs := [''db'' \<mapsto> overrideConfig]\<rparr>) ''db'' of
      Inl p \<Rightarrow> False
    | Inr (merged, c') \<Rightarrow>
        InitArgs merged = [IStr ''dsn''] \<and>
        CircuitBreaker merged = CircuitBreaker overrideConfig \<and>
        MaxConcurrentCalls merged = 100 \<and>
        PluginTimeout merged = 2 * second \<and>
        optionsLookup (Options merged) ''region'' = Some (IStr ''eu'') \<and>
        optionsLookup (Options merged) ''tier'' = Some (IInt 1))"
proof -
  let ?c = "DefaultConfig\<lparr>DefaultPluginConfig := defaultWithOptions,
                          PluginConfigs := [''db'' \<mapsto> overrideConfig]\<rparr>"
  have 1: "PluginConfigs ?c ''db'' = Some overrideConfig"
    by simp
  have 2: "Options (DefaultPluginConfig ?c) \<noteq> None \<or> Options overrideConfig = None
             \<or> Options overrideConfig = Some Map.empty"
    by (simp add: defaultWithOptions_def)
  obtain merged c' where r: "GetPluginConfig ?c ''db'' = Inr (merged, c')"
    and f: "InitArgs merged
              = (if InitArgs overrideConfig \<noteq> [] then InitArgs overrideConfig
                 else InitArgs (DefaultPluginConfig ?c))"
      "CircuitBreaker merged
              = (if Enabled (CircuitBreaker overrideConfig) then CircuitBreaker overrideConfig
                 else CircuitBreaker (DefaultPluginConfig ?c))"
      "MaxConcurrentCalls merged
              = (if sint (MaxConcurrentCalls overrideConfig) > 0
                 then MaxConcurrentCalls overrideConfig
                 else MaxConcurrentCalls (DefaultPluginConfig ?c))"
      "PluginTimeout merged
              = (if sint (PluginTimeout overrideConfig) > 0 then PluginTimeout overrideConfig
                 else PluginTimeout (DefaultPluginConfig ?c))"
      "\<forall>k. optionsLookup (Options merged) k
              = (case optionsLookup (Options overrideConfig) k of
                   Some v \<Rightarrow> Some v
                 | None \<Rightarrow> optionsLookup (Options (DefaultPluginConfig ?c)) k)"
    using GetPluginConfig_merge [OF 1 2] by blast
  have "InitArgs merged = [IStr ''dsn'']"
    using f(1) by (simp add: overrideConfig_def)
  moreover have "CircuitBreaker merged = CircuitBreaker overrideConfig"
    using f(2) by (simp add: overrideConfig_def)
  moreover have "MaxConcurrentCalls merged = 100"
    using f(3) by (simp add: overrideConfig_def defaultWithOptions_def
        DefaultPluginSpecificConfig_def)
  moreover have "PluginTimeout merged = 2 * second"
    using f(4) by (simp add: overrideConfig_def second_def)
  moreover have "optionsLookup (Options merged) ''region'' = Some (IStr ''eu'')"
    using f(5) by (simp add: overrideConfig_def optionsLookup_def)
  moreover have "optionsLookup (Options merged) ''tier'' = Some (IInt 1)"
    using f(5) by (simp add: overrideConfig_def defaultWithOptions_def optionsLookup_def)
  ultimately show ?thesis
    using r by simp
qed

text \<open>
  C8 as stated, "every non-zero field of the override replaces the default's", fails on an
  override whose \<open>CircuitBreaker\<close> is not the zero value but has \<open>Enabled = False\<close>: it
  replaces nothing, and the merged configuration is the default.
\<close>

theorem GetPluginConfig_disabled_breaker_override:
  "CircuitBreaker disabledBreakerOverride \<noteq> zeroCircuitBreakerConfig \<and>
   GetPluginConfig (DefaultConfig\<lparr>PluginConfigs := [''db'' \<mapsto> disabledBreakerOverride]\<rparr>) ''db''
     = Inr (DefaultPluginSpecificConfig,
            DefaultConfig\<lparr>PluginConfigs := [''db'' \<mapsto> disabledBreakerOverride]\<rparr>) \<and>
   CircuitBreaker DefaultPluginSpecificConfig \<noteq> CircuitBreaker disabledBreakerOverride"
  by (simp add: GetPluginConfig_def mergeConfig_def disabledBreakerOverride_def
      zeroCircuitBreakerConfig_def DefaultConfig_def DefaultPluginSpecificConfig_def
      DefaultCircuitBreakerConfig_def second_def)

section \<open>Calls through the manager\<close>

text \<open>A recorded call counts once, for its own function only.\<close>

lemma RecordMetric_sampleCount:
  assumes "pm_enabled m"
  shows "sampleCount (RecordMetric m p f d) p f = sampleCount m p f + 1"
proof (cases "pm_plugins m p")
  case None
  with assms show ?thesis
    by (simp add: sampleCount_def RecordMetric_def methodMetrics_def LoadOrStore_def
        zeroMethodMetrics_def Let_def)
next
  case (Some pMetrics)
  with assms show ?thesis
    by (cases "pMetrics f")
       (simp_all add: sampleCount_def RecordMetric_def methodMetrics_def LoadOrStore_def
        zeroMethodMetrics_def Let_def)
qed

lemma RecordMetric_other:
  assumes "(p', f') \<noteq> (p, f)"
  shows "methodMetrics (RecordMetric m p f d) p' f' = methodMetrics m p' f'"
proof (cases "pm_enabled m")
  case False
  then show ?thesis by (simp add: RecordMetric_def)
next
  case True
  show ?thesis
  proof (cases "pm_plugins m p")
    case None
    with True assms show ?thesis
      by (auto simp add: RecordMetric_def methodMetrics_def LoadOrStore_def Let_def)
  next
    case (Some pMetrics)
    with True assms show ?thesis
      by (cases "pMetrics f")
         (auto simp add: RecordMetric_def methodMetrics_def LoadOrStore_def Let_def)
  qed
qed

text \<open>
  C9. For a name with no entry in the breakers map, \<open>IsCircuitBreakerOpen\<close> and
  \<open>GetBreakerStatus\<close> panic on the type assertion instead of returning a boolean, and so
  does \<open>Call\<close> when the plugin map has the name.
\<close>

theorem missing_breaker_panics:
  assumes "map_of (m_breakers m) pluginName = None"
  shows "IsCircuitBreakerOpen m now pluginName = Inl PanicNilInterfaceConversion \<and>
         GetBreakerStatus m now pluginName = Inl PanicNilInterfaceConversion \<and>
         (map_of (m_plugins m) pluginName \<noteq> None \<longrightarrow>
            Call m clock pluginName funcName args = Inl PanicNilInterfaceConversion)"
  using assms
  by (auto simp add: IsCircuitBreakerOpen_def GetBreakerStatus_def Call_def)

theorem missing_breaker_panics_witness:
  "IsCircuitBreakerOpen unguardedManager 5000 ''test-plugin'' = Inl PanicNilInterfaceConversion \<and>
   GetBreakerStatus unguardedManager 5000 ''test-plugin'' = Inl PanicNilInterfaceConversion \<and>
   Call unguardedManager testClock ''test-plugin'' ''TestFunc'' []
     = Inl PanicNilInterfaceConversion"
proof -
  have 1: "map_of (m_breakers unguardedManager) ''test-plugin'' = None"
    by (simp add: unguardedManager_def emptyManager_def)
  have 2: "map_of (m_plugins unguardedManager) ''test-plugin'' \<noteq> None"
    by (simp add: unguardedManager_def)
  show ?thesis
    using missing_breaker_panics [OF 1, of 5000 testClock "''TestFunc''" "[]"] 2 by simp
qed

text \<open>
  A call that gets past the plugin lookup, the breaker lookup and \<open>Allow\<close> invokes the
  function, and what it does next depends only on whether the function returned an error.
\<close>

lemma Allow_keeps_pointer:
  "Allow t b = (a, b1) \<Longrightarrow> (b1 = None) = (b = None)"
  by (cases b) (auto simp add: Allow_def CompareAndSwap_def Let_def split: if_splits)

lemma Call_reached:
  assumes "map_of (m_plugins m) pluginName = Some instance"
    and "map_of (m_breakers m) pluginName = Some breaker"
    and "Allow (atAllow clock) breaker = (True, breaker1)"
  shows "Call m clock pluginName funcName args =
     (case Plugin_Call (pi_Plugin instance) funcName args of
        (result, Some e) \<Rightarrow>
          Inr ((INil, Some e),
               m\<lparr>m_breakers :=
                    AList.update pluginName
                      (RecordFailure (atRecordFailure clock) breaker1) (m_breakers m)\<rparr>)
      | (result, None) \<Rightarrow>
          Inr ((result, None),
               m\<lparr>m_breakers := AList.update pluginName (RecordSuccess breaker1) (m_breakers m),
                  m_metrics :=
                    (if IsEnabled (m_metrics m)
                     then RecordMetric (m_metrics m) pluginName funcName (elapsed clock)
                     else m_metrics m)\<rparr>))"
proof (cases breaker)
  case None
  with assms(3) have "breaker1 = None" by (simp add: Allow_def)
  with None assms(1,2) show ?thesis
    by (simp add: Call_def RecordFailure_def RecordSuccess_def split: prod.splits option.splits)
next
  case (Some cb)
  with assms(3) obtain cb1 where "breaker1 = Some cb1"
    using Allow_keeps_pointer [of "atAllow clock" breaker True breaker1] by auto
  with Some assms show ?thesis
    by (simp add: Call_def split: prod.splits option.splits)
qed

text \<open>
  C7. When the plugin function returns an error, \<open>Call\<close> returns that error, the breaker
  is the one \<open>RecordFailure\<close> leaves, and nothing else of the manager changes, the metrics
  included. When it succeeds,
  \<open>Call\<close> returns its result, the breaker is the one \<open>RecordSuccess\<close> leaves and, with
  metrics enabled, \<open>RecordMetric\<close> has run once: the count of this plugin and function
  is one higher and no other function's metrics changed.
\<close>

theorem Call_records_outcome:
  assumes "map_of (m_plugins m) pluginName = Some instance"
    and "map_of (m_breakers m) pluginName = Some breaker"
    and "Allow (atAllow clock) breaker = (True, breaker1)"
    and "Plugin_Call (pi_Plugin instance) funcName args = (result, err)"
  shows "(\<forall>e. err = Some e \<longrightarrow>
            Call m clock pluginName funcName args
              = Inr ((INil, Some e),
                     m\<lparr>m_breakers :=
                          AList.update pluginName
                            (RecordFailure (atRecordFailure clock) breaker1) (m_breakers m)\<rparr>)) \<and>
         (err = None \<longrightarrow>
            Call m clock pluginName funcName args
              = Inr ((result, None),
                     m\<lparr>m_breakers :=
                          AList.update pluginName (RecordSuccess breaker1) (m_breakers m),
                        m_metrics :=
                          (if IsEnabled (m_metrics m)
                           then RecordMetric (m_metrics m) pluginName funcName (elapsed clock)
                           else m_metrics m)\<rparr>) \<and>
            (IsEnabled (m_metrics m) \<longrightarrow>
               sampleCount (RecordMetric (m_metrics m) pluginName funcName (elapsed clock))
                   pluginName funcName
                 = sampleCount (m_metrics m) pluginName funcName + 1 \<and>
               (\<forall>p f. (p, f) \<noteq> (pluginName, funcName) \<longrightarrow>
                  methodMetrics (RecordMetric (m_metrics m) pluginName funcName (elapsed clock)) p f
                    = methodMetrics (m_metrics m) p f)))"
proof (intro conjI allI impI)
  fix e assume "err = Some e"
  with assms show "Call m clock pluginName funcName args
              = Inr ((INil, Some e),
                     m\<lparr>m_breakers :=
                          AList.update pluginName
                            (RecordFailure (atRecordFailure clock) breaker1) (m_breakers m)\<rparr>)"
    by (simp add: Call_reached [OF assms(1-3)])
next
  assume "err = None"
  with assms show "Call m clock pluginName funcName args
              = Inr ((result, None),
                     m\<lparr>m_breakers :=
                          AList.update pluginName (RecordSuccess breaker1) (m_breakers m),
                        m_metrics :=
                          (if IsEnabled (m_metrics m)
                           then RecordMetric (m_metrics m) pluginName funcName (elapsed clock)
                           else m_metrics m)\<rparr>)"
    by (simp add: Call_reached [OF assms(1-3)])
next
  assume "IsEnabled (m_metrics m)"
  then show "sampleCount (RecordMetric (m_metrics m) pluginName funcName (elapsed clock))
                   pluginName funcName
                 = sampleCount (m_metrics m) pluginName funcName + 1"
    by (simp add: IsEnabled_def RecordMetric_sampleCount)
next
  fix p f assume "(p, f) \<noteq> (pluginName, funcName)"
  then show "methodMetrics (RecordMetric (m_metrics m) pluginName funcName (elapsed clock)) p f
                    = methodMetrics (m_metrics m) p f"
    by (rule RecordMetric_other)
qed

theorem Call_records_outcome_witness:
  "Call testManager testClock ''test-plugin'' ''FailingFunc'' []
     = Inr ((INil, Some (ErrMsg ''test error'')),
            testManager\<lparr>m_breakers :=
              [(''test-plugin'',
                Some \<lparr>cb_state = StateClosed, cb_failures = 1, cb_lastFailure = 5400,
                      cb_config = testBreakerConfig, cb_done = False\<rparr>)]\<rparr>) \<and>
   Call testManager testClock ''test-plugin'' ''TestFunc'' []
     = Inr ((IStr ''test result'', None),
            testManager\<lparr>m_metrics :=
              RecordMetric (m_metrics testManager) ''test-plugin'' ''TestFunc'' 300\<rparr>) \<and>
   sampleCount (m_metrics testManager) ''test-plugin'' ''TestFunc'' = 0 \<and>
   sampleCount (RecordMetric (m_metrics testManager) ''test-plugin'' ''TestFunc'' 300)
     ''test-plugin'' ''TestFunc'' = 1"
proof -
  let ?b = "NewCircuitBreaker testBreakerConfig"
  have p: "map_of (m_plugins testManager) ''test-plugin'' = Some testInstance"
    by (simp add: testManager_def unguardedManager_def)
  have b: "map_of (m_breakers testManager) ''test-plugin'' = Some ?b"
    by (simp add: testManager_def)
  have a: "Allow (atAllow testClock) ?b = (True, ?b)"
    by (simp add: NewCircuitBreaker_def Allow_def)
  have f: "Plugin_Call (pi_Plugin testInstance) ''FailingFunc'' []
             = (INil, Some (ErrMsg ''test error''))"
    by (simp add: Plugin_Call_def testInstance_def testPlugin_def)
  have t: "Plugin_Call (pi_Plugin testInstance) ''TestFunc'' [] = (IStr ''test result'', None)"
    by (simp add: Plugin_Call_def testInstance_def testPlugin_def)
  have en: "IsEnabled (m_metrics testManager)"
    by (simp add: IsEnabled_def testManager_def unguardedManager_def emptyManager_def
        NewPluginMetrics_def testConfig_def)
  have rf: "RecordFailure (atRecordFailure testClock) ?b
      = Some \<lparr>cb_state = StateClosed, cb_failures = 1, cb_lastFailure = 5400,
              cb_config = testBreakerConfig, cb_done = False\<rparr>"
    by (simp add: RecordFailure_def NewCircuitBreaker_def testClock_def UnixNano_def
        testBreakerConfig_def CompareAndSwap_def)
  have rs: "RecordSuccess ?b = ?b"
    by (simp add: RecordSuccess_def NewCircuitBreaker_def StateClosed_def StateHalfOpen_def)
  have z: "sampleCount (m_metrics testManager) ''test-plugin'' ''TestFunc'' = 0"
    by (simp add: sampleCount_def methodMetrics_def testManager_def unguardedManager_def
        emptyManager_def NewPluginMetrics_def)
  have 1: "Call testManager testClock ''test-plugin'' ''FailingFunc'' []
     = Inr ((INil, Some (ErrMsg ''test error'')),
            testManager\<lparr>m_breakers :=
              [(''test-plugin'',
                Some \<lparr>cb_state = StateClosed, cb_failures = 1, cb_lastFailure = 5400,
                      cb_config = testBreakerConfig, cb_done = False\<rparr>)]\<rparr>)"
    using Call_records_outcome [OF p b a f] rf by (simp add: testManager_def)
  have 2: "Call testManager testClock ''test-plugin'' ''TestFunc'' []
     = Inr ((IStr ''test result'', None),
            testManager\<lparr>m_metrics :=
              RecordMetric (m_metrics testManager) ''test-plugin'' ''TestFunc'' 300\<rparr>) \<and>
     sampleCount (RecordMetric (m_metrics testManager) ''test-plugin'' ''TestFunc'' 300)
       ''test-plugin'' ''TestFunc'' = 1"
    using Call_records_outcome [OF p b a t] rs en z by (simp add: testManager_def testClock_def)
  from 1 2 z show ?thesis by simp
qed

section \<open>Shutdown\<close>

text \<open>
  The range of \<open>Close\<close> over the plugins: it goes through every entry, whatever \<^verbatim>\<open>Free\<close>
  returned for the entries before, and deletes the key of each.
\<close>

lemma freePlugins_result:
  "freePlugins ps errs m =
     (errs @ teardownErrors ps,
      m\<lparr>m_calls := m_calls m @ map (\<lambda>(name, instance). EvFree (bureau (pi_Plugin instance))) ps,
        m_plugins := foldl (\<lambda>al (name, instance). AList.delete name al) (m_plugins m) ps\<rparr>)"
proof (induction ps arbitrary: errs m)
  case Nil
  then show ?case by (simp add: teardownErrors_def)
next
  case (Cons p ps)
  obtain name inst where p: "p = (name, inst)" by (cases p)
  show ?case
    by (cases "b_Free (bureau (pi_Plugin inst))")
       (simp_all add: p Cons.IH teardownErrors_def Let_def)
qed

lemma delete_all_keys:
  "fst ` set al \<subseteq> fst ` set ps \<Longrightarrow>
   foldl (\<lambda>al (name, instance). AList.delete name al) al ps = []"
proof (induction ps arbitrary: al)
  case Nil
  then show ?case by simp
next
  case (Cons p ps)
  obtain name inst where p: "p = (name, inst)" by (cases p)
  have "fst ` set (AList.delete name al) \<subseteq> fst ` set ps"
    using Cons.prems by (auto simp add: p AList.delete_eq)
  then show ?case
    using Cons.IH [of "AList.delete name al"] by (simp add: p)
qed

text \<open>
  C5. \<open>Close\<close> calls \<^verbatim>\<open>Free\<close> on every instance in the plugin map, one call per entry and
  in the order of the range, whether or not an earlier \<^verbatim>\<open>Free\<close> failed. It returns nil
  when none failed and otherwise one error that holds the \<^verbatim>\<open>ErrPluginFree\<close> of every
  failure. Afterwards the plugin map is empty.
\<close>

theorem Close_frees_all:
  assumes "Close m = (err, m')"
  shows "m_calls m'
           = m_calls m @ map (\<lambda>(name, instance). EvFree (bureau (pi_Plugin instance))) (m_plugins m) \<and>
         err = (if teardownErrors (m_plugins m) = [] then None
                else Some (ErrCleanup (teardownErrors (m_plugins m)))) \<and>
         m_plugins m' = []"
  using assms delete_all_keys [of "m_plugins m" "m_plugins m"]
  by (auto simp add: Close_def Let_def freePlugins_result split: if_splits)

theorem Close_frees_all_witness:
  "fst (Close twoPluginManager)
     = Some (ErrCleanup [ErrPluginFree ''alpha'' (ErrMsg ''free failed'')]) \<and>
   m_calls (snd (Close twoPluginManager))
     = [EvFree (brokenFreeBureau ''1.0.0''), EvFree (mockBureau ''0.3.0'')] \<and>
   m_plugins (snd (Close twoPluginManager)) = []"
  using Close_frees_all [of twoPluginManager "fst (Close twoPluginManager)"
      "snd (Close twoPluginManager)"]
  by (simp add: twoPluginManager_def emptyManager_def teardownErrors_def NewPlugin_def
      brokenFreeBureau_def mockBureau_def)

section \<open>Loading and upgrading\<close>

text \<open>
  Loading a higher version over a current instance marks that instance deprecated before
  the new plugin's \<^verbatim>\<open>Init\<close> runs. When \<^verbatim>\<open>Init\<close> fails, the new plugin is freed and not
  stored, and the mark stays.
\<close>

lemmas version_eval = isHigherVersion_def TrimPrefix_def padParts_def Atoi_def ParseUint_def
  isDigit_def digitVal_def
lemmas path_eval = getPluginNameFromPath_def filepath_Base_def filepath_Ext_def TrimSuffix_def

lemma LoadPluginWithConfig_init_failure:
  assumes "load path = Inr plugin"
    and "map_of (m_plugins m) (getPluginNameFromPath path) = Some oldInstance"
    and "isHigherVersion (Plugin_Version plugin) (pi_version oldInstance) = Inr True"
    and "b_Init (bureau plugin)
           (InitArgs (case cfg of None \<Rightarrow> DefaultPluginConfig (m_config m) | Some c \<Rightarrow> c))
         = Some err"
  shows "LoadPluginWithConfig load m path cfg =
     Inr (Some (ErrWrap ''failed to initialize plugin'' err),
          m\<lparr>m_plugins :=
               AList.update (getPluginNameFromPath path)
                 (oldInstance\<lparr>pi_state := StateDeprecated\<rparr>) (m_plugins m),
             m_calls :=
               m_calls m @
               [EvInit (bureau plugin)
                  (InitArgs (case cfg of None \<Rightarrow> DefaultPluginConfig (m_config m)
                             | Some c \<Rightarrow> c)),
                EvFree (bureau plugin)]\<rparr>)"
  using assms by (simp add: LoadPluginWithConfig_def registerPlugin_def Let_def)

text \<open>
  C2. \<^verbatim>\<open>test-plugin\<close> is current at version 1.0.0 and active. Loading version 2.0.0, whose
  \<^verbatim>\<open>Init\<close> fails, returns the wrapped error, calls \<^verbatim>\<open>Init\<close> and then \<^verbatim>\<open>Free\<close> on the new
  plugin and stores nothing new; version 1.0.0 is still the entry of the name, but
  \<open>ListPlugins\<close> now reports it as \<open>StateDeprecated\<close>.
\<close>

theorem failed_upgrade_deprecates_current:
  "LoadPluginWithConfig (loads (NewPlugin (brokenInitBureau ''2.0.0''))) testManager
       ''/tmp/plugins/test-plugin.so'' None
     = Inr (Some (ErrWrap ''failed to initialize plugin'' (ErrMsg ''init failed'')),
            testManager
              \<lparr>m_plugins := [(''test-plugin'', testInstance\<lparr>pi_state := StateDeprecated\<rparr>)],
               m_calls := [EvInit (brokenInitBureau ''2.0.0'') [],
                           EvFree (brokenInitBureau ''2.0.0'')]\<rparr>) \<and>
   ListPlugins
       (testManager
          \<lparr>m_plugins := [(''test-plugin'', testInstance\<lparr>pi_state := StateDeprecated\<rparr>)],
           m_calls := [EvInit (brokenInitBureau ''2.0.0'') [],
                       EvFree (brokenInitBureau ''2.0.0'')]\<rparr>)
     = [\<lparr>info_Name = ''test-plugin'', info_Version = ''1.0.0'', info_State = StateDeprecated,
         info_RefCount = 0, info_Path = []\<rparr>]"
proof -
  let ?plugin = "NewPlugin (brokenInitBureau ''2.0.0'')"
  let ?path = "''/tmp/plugins/test-plugin.so''"
  have n: "getPluginNameFromPath ?path = ''test-plugin''"
    by (simp add: path_eval)
  have 1: "loads ?plugin ?path = Inr ?plugin"
    by (simp add: loads_def)
  have 2: "map_of (m_plugins testManager) (getPluginNameFromPath ?path) = Some testInstance"
    by (simp add: n testManager_def unguardedManager_def)
  have 3: "isHigherVersion (Plugin_Version ?plugin) (pi_version testInstance) = Inr True"
    by (simp add: Plugin_Version_def NewPlugin_def brokenInitBureau_def mockBureau_def
        testInstance_def version_eval)
  have 4: "b_Init (bureau ?plugin)
             (InitArgs (case None of None \<Rightarrow> DefaultPluginConfig (m_config testManager)
                        | Some c \<Rightarrow> c))
             = Some (ErrMsg ''init failed'')"
    by (simp add: NewPlugin_def brokenInitBureau_def)
  have b: "bureau ?plugin = brokenInitBureau ''2.0.0''"
    by (simp add: NewPlugin_def)
  show ?thesis
    using LoadPluginWithConfig_init_failure
      [where load = "loads ?plugin" and path = ?path and plugin = ?plugin and cfg = None,
       OF 1 2 3 4]
    by (simp add: n b testManager_def unguardedManager_def emptyManager_def testConfig_def
        ListPlugins_def testInstance_def)
qed

section \<open>What \<open>Atoi\<close> yields\<close>









section \<open>The version check\<close>







lemma registerPlugin_installs:
  assumes "b_Init (bureau plugin) (InitArgs config) = None"
    and "registerPlugin m pluginName path config plugin = (err, m')"
  shows "err = None \<and>
         map_of (m_plugins m') pluginName
           = Some \<lparr>pi_Plugin = plugin, pi_state = StateActive, pi_version = Plugin_Version plugin\<rparr>"
  using assms by (auto simp add: registerPlugin_def Let_def AList.update_conv')





section \<open>Unknown function names and the breaker\<close>

text \<open>
  \<open>Plugin_Call\<close> answers an unknown function name with \<open>ErrFuncNotFound\<close>, and \<open>Call\<close>
  treats that like any error of a plugin function: it runs \<open>RecordFailure\<close>.
\<close>

lemma Call_unknown_function:
  assumes "map_of (m_plugins m) pluginName = Some inst"
    and "map_of (m_breakers m) pluginName = Some (Some cb)"
    and "cb_state cb = StateClosed \<or> cb_state cb = StateHalfOpen"
    and "funcs (pi_Plugin inst) funcName = None"
  shows "Call m clock pluginName funcName args
     = Inr ((INil, Some (ErrFuncNotFound funcName)),
            m\<lparr>m_breakers :=
                 AList.update pluginName (RecordFailure (atRecordFailure clock) (Some cb))
                   (m_breakers m)\<rparr>)"
  using assms
  by (auto simp add: Call_def Allow_def Plugin_Call_def StateClosed_def StateHalfOpen_def)

text \<open>
  On a closed breaker whose counter is below the threshold \<^verbatim>\<open>int32(MaxFailures)\<close>, as many
  consecutive calls of an unknown function as the counter is short of the threshold all
  return \<open>ErrFuncNotFound\<close> and leave the breaker open.
\<close>

lemma sint_succ:
  assumes "sint (w :: int32) < 2 ^ 31 - 1"
  shows "sint (w + 1) = sint w + 1"
proof -
  have "- (2 ^ 31) \<le> sint w"
    using sint_ge [of w] by simp
  then have "signed_take_bit 31 (sint w + 1) = sint w + 1"
    using assms by (intro signed_take_bit_int_eq_self) simp_all
  then show ?thesis
    by (simp add: sint_word_add)
qed

lemma Calls_unknown_function_opens:
  assumes "map_of (m_plugins m) pluginName = Some inst"
    and "funcs (pi_Plugin inst) funcName = None"
    and "map_of (m_breakers m) pluginName = Some (Some cb)"
    and "cb_state cb = StateClosed"
    and "sint (cb_failures cb) + int (length clocks)
           = sint (ucast (MaxFailures (cb_config cb)) :: int32)"
    and "clocks \<noteq> []"
  shows "\<exists>m' cb'. Calls m clocks pluginName funcName args
                     = Inr (replicate (length clocks) (Some (ErrFuncNotFound funcName)), m') \<and>
                   map_of (m_breakers m') pluginName = Some (Some cb') \<and>
                   cb_state cb' = StateOpen"
  using assms
proof (induction clocks arbitrary: m cb)
  case Nil
  then show ?case by simp
next
  case (Cons clock clocks)
  let ?M = "sint (ucast (MaxFailures (cb_config cb)) :: int32)"
  let ?cb1 = "cb\<lparr>cb_lastFailure := UnixNano (atRecordFailure clock),
                 cb_failures := cb_failures cb + 1,
                 cb_state := (if sint (cb_failures cb + 1) \<ge> ?M then StateOpen else StateClosed)\<rparr>"
  let ?m1 = "m\<lparr>m_breakers := AList.update pluginName (Some ?cb1) (m_breakers m)\<rparr>"
  have call: "Call m clock pluginName funcName args
                = Inr ((INil, Some (ErrFuncNotFound funcName)), ?m1)"
    using Call_unknown_function [OF Cons.prems(1) Cons.prems(3) _ Cons.prems(2)]
      Cons.prems(4) RecordFailure_Closed [OF Cons.prems(4)]
    by simp
  have "?M < 2 ^ 31"
    using sint_lt [of "ucast (MaxFailures (cb_config cb)) :: int32"] by simp
  with Cons.prems(5) have "sint (cb_failures cb) < 2 ^ 31 - 1"
    by simp
  then have succ: "sint (cb_failures cb + 1) = sint (cb_failures cb) + 1"
    by (rule sint_succ)
  have b1: "map_of (m_breakers ?m1) pluginName = Some (Some ?cb1)"
    by (simp add: AList.update_conv')
  show ?case
  proof (cases clocks)
    case Nil
    with Cons.prems(5) succ have "cb_state ?cb1 = StateOpen"
      by simp
    with call b1 Nil show ?thesis
      by simp
  next
    case (Cons clock' clocks')
    with Cons.prems(5) succ have closed: "cb_state ?cb1 = StateClosed"
      by simp
    have p1: "map_of (m_plugins ?m1) pluginName = Some inst"
      using Cons.prems(1) by simp
    have inv: "sint (cb_failures ?cb1) + int (length clocks)
                 = sint (ucast (MaxFailures (cb_config ?cb1)) :: int32)"
      using Cons.prems(5) succ by simp
    have ne: "clocks \<noteq> []"
      using Cons by simp
    from Cons.IH [OF p1 Cons.prems(2) b1 closed inv ne]
    obtain m' cb' where "Calls ?m1 clocks pluginName funcName args
                     = Inr (replicate (length clocks) (Some (ErrFuncNotFound funcName)), m')"
      "map_of (m_breakers m') pluginName = Some (Some cb')" "cb_state cb' = StateOpen"
      by blast
    with call show ?thesis
      by simp
  qed
qed

text \<open>
  C10. The breaker of \<^verbatim>\<open>test-plugin\<close> has tripped (\<open>maxFailures = 5\<close>) and its timeout has
  passed, so it lets calls through. Five consecutive calls of an unknown function all
  return \<open>ErrFuncNotFound\<close>; the first moves the breaker to half-open and resets the
  counter, each records a failure, and after the fifth the counter is 5 and the breaker is
  still half-open, not open.
\<close>

theorem unknown_function_calls_leave_HalfOpen:
  "Calls trippedManager [laterClock, laterClock, laterClock, laterClock, laterClock]
       ''test-plugin'' ''NoSuchFunc'' []
     = Inr ([Some (ErrFuncNotFound ''NoSuchFunc''), Some (ErrFuncNotFound ''NoSuchFunc''),
             Some (ErrFuncNotFound ''NoSuchFunc''), Some (ErrFuncNotFound ''NoSuchFunc''),
             Some (ErrFuncNotFound ''NoSuchFunc'')],
            trippedManager
              \<lparr>m_breakers :=
                 [(''test-plugin'',
                   Some \<lparr>cb_state = StateHalfOpen, cb_failures = 5, cb_lastFailure = 7000000400,
                         cb_config = testBreakerConfig, cb_done = False\<rparr>)]\<rparr>)"
  by (simp add: trippedManager_def testManager_def unguardedManager_def emptyManager_def
      testInstance_def testPlugin_def laterClock_def testBreakerConfig_def second_def
      Call_def Allow_def RecordFailure_def Plugin_Call_def CompareAndSwap_def time_Since_def
      UnixNano_def StateClosed_def StateOpen_def StateHalfOpen_def)

end
